theory Spec2Isabelle
  imports Main "HOL-Library.Word"
begin

section \<open>Expression lowering: lib/IRGen/GenExpr.cpp\<close>

text \<open>
  The file lowers type-checked expressions to LLVM values.  Its functions are methods of
  \<^verbatim>\<open>IRGenFunction\<close>; they read the expression tree, call other parts of IRGen and
  of LLVM, and either return or stop the process (\<^verbatim>\<open>llvm_unreachable\<close>, a failed
  \<^verbatim>\<open>assert\<close>).  The embedding below keeps that shape:
  \<^item> the expression tree is a datatype with one constructor per \<^verbatim>\<open>ExprKind\<close>;
  \<^item> the lowering context is a record holding the trace of calls issued to the instruction
    builder, the trace of recorded diagnostics, and the module state owned by the rest of IRGen;
  \<^item> every function takes the context and returns either a fatal stop or its result together
    with the context afterwards;
  \<^item> the functions of IRGen that are declared in other files are the fields of a record of
    collaborators, passed to every function that calls one.
  Assertions are modelled as they behave in a build with assertions enabled: a failed one stops
  the process.
\<close>

subsection \<open>LLVM types, constants and builder calls\<close>

datatype llvm_type =
    IntegerTy nat
  | FloatingPointTy
  | OpaqueTy string
  | StructTy "llvm_type list"
  | PointerTy llvm_type

definition getPointerTo :: "llvm_type \<Rightarrow> llvm_type" where
  "getPointerTo ty = PointerTy ty"

definition Int8PtrTy :: llvm_type where
  "Int8PtrTy = PointerTy (IntegerTy 8)"

text \<open>An arbitrary-precision integer: its bit width and its value.\<close>

datatype APInt = APInt nat int

text \<open>An arbitrary-precision float, opaque to this file: its bit pattern.\<close>

datatype APFloat = APFloat nat

text \<open>
  Values are symbolic.  \<open>BitCast v ty\<close> is the value a \<^verbatim>\<open>CreateBitCast\<close> call returns,
  \<open>OtherValue\<close> any value produced elsewhere (an argument, a global, an instruction result).
\<close>

datatype llvm_value =
    ConstantInt APInt
  | ConstantFP APFloat
  | UndefValue llvm_type
  | NullValue llvm_type
  | BitCast llvm_value llvm_type
  | OtherValue string

definition getNullValue :: "llvm_type \<Rightarrow> llvm_value" where
  "getNullValue ty = NullValue ty"

definition getInt8 :: "8 word \<Rightarrow> llvm_value" where
  "getInt8 c = ConstantInt (APInt 8 (uint c))"

definition getInt64 :: "64 word \<Rightarrow> llvm_value" where
  "getInt64 c = ConstantInt (APInt 64 (uint c))"

text \<open>
  A call issued to the instruction builder.  \<open>CreateMemSet ptr val size align isVolatile\<close>
  has the argument order of the call in \<^verbatim>\<open>emitZeroInit\<close>.
\<close>

datatype BuilderCall =
    CreateBitCast llvm_value llvm_type
  | CreateMemSet llvm_value llvm_value llvm_value "32 word" bool
  | OtherCall string "llvm_value list"

subsection \<open>Fatal stops\<close>

text \<open>The two ways the file stops the process, each with the message of the source.\<close>

datatype fatal =
    llvm_unreachable string
  | assertion_failed string

subsection \<open>Layout and value containers\<close>

text \<open>
  A size is the 64-bit unsigned integer that \<^verbatim>\<open>getInt64\<close> takes, an alignment the
  32-bit one that \<^verbatim>\<open>CreateMemSet\<close> takes.
\<close>

type_synonym Size = "64 word"
type_synonym Alignment = "32 word"

datatype Address = Address (getAddress: llvm_value) (getAlignment: Alignment)

text \<open>
  An r-value is a sequence of scalars or the address of an aggregate; the two factory
  functions of \<^verbatim>\<open>RValue\<close> are the constructors.
\<close>

datatype RValue =
    forScalars (getScalars: "llvm_value list")
  | forAggregate (getAggregateAddress: llvm_value)

fun isScalar :: "RValue \<Rightarrow> bool" where
  "isScalar (forScalars vs) = True"
| "isScalar (forAggregate a) = False"

datatype RValueSchema =
    ScalarSchema (getScalarTypes: "llvm_type list")
  | AggregateSchema (getAggregateType: llvm_type)

text \<open>
  Modelled from the spec: \<^verbatim>\<open>LValue\<close> and \<^verbatim>\<open>IRGenFunction::emitAddressLValue\<close> are
  declared outside this file.  The spec describes an l-value as an address denoting the storage
  of a value, so an l-value wraps the address it was made from.
\<close>

datatype LValue = AddressLValue (getLValueAddress: Address)

definition emitAddressLValue :: "Address \<Rightarrow> LValue" where
  "emitAddressLValue a = AddressLValue a"

datatype ExplosionKind = Minimal | Maximal

text \<open>
  Modelled from the spec: \<^verbatim>\<open>Explosion\<close> is declared outside this file.  The spec
  describes it as an ordered queue of scalars tagged with an explosion kind, with
  \<^verbatim>\<open>add\<close> appending, \<^verbatim>\<open>claimNext\<close> popping the front and failing with an
  underflow on an empty explosion, and \<^verbatim>\<open>empty\<close> testing for no remaining value.
\<close>

record Explosion =
  ExKind :: ExplosionKind
  Values :: "llvm_value list"

definition newExplosion :: "ExplosionKind \<Rightarrow> Explosion" where
  "newExplosion k = \<lparr>ExKind = k, Values = []\<rparr>"

definition add :: "llvm_value \<Rightarrow> Explosion \<Rightarrow> Explosion" where
  "add v ex = ex\<lparr>Values := Values ex @ [v]\<rparr>"

definition claimNext :: "Explosion \<Rightarrow> fatal + (llvm_value \<times> Explosion)" where
  "claimNext ex =
     (case Values ex of
        [] \<Rightarrow> Inl (assertion_failed ''claimNext: explosion underflow'')
      | v # vs \<Rightarrow> Inr (v, ex\<lparr>Values := vs\<rparr>))"

definition empty :: "Explosion \<Rightarrow> bool" where
  "empty ex = (Values ex = [])"

datatype ExplosionSchemaElement =
    ScalarElement llvm_type
  | AggregateElement llvm_type

record TypeInfo =
  StorageType :: llvm_type
  StorageSize :: Size
  StorageAlignment :: Alignment
  getSchema :: RValueSchema

subsection \<open>The expression tree\<close>

text \<open>The semantic type of an expression; the file only asks whether it is a builtin type.\<close>

datatype Type =
    BuiltinIntegerType nat
  | BuiltinFloatType
  | OtherType string

fun isBuiltinIntegerType :: "Type \<Rightarrow> bool" where
  "isBuiltinIntegerType (BuiltinIntegerType w) = True"
| "isBuiltinIntegerType t = False"

fun isBuiltinFloatType :: "Type \<Rightarrow> bool" where
  "isBuiltinFloatType BuiltinFloatType = True"
| "isBuiltinFloatType t = False"

datatype ValueKind = RValueKind | LValueKind

type_synonym SourceLoc = nat

datatype DeclKind =
    ExtensionDecl | ImportDecl | TypeAliasDecl
  | FuncDecl | VarDecl | ArgDecl | ElementRefDecl | OneOfElementDecl

record ValueDecl =
  getDeclKind :: DeclKind
  getName :: string
  isLocalContext :: bool

text \<open>What every expression node carries: its type, its value kind and its location.\<close>

record ExprInfo =
  Ty :: Type
  VK :: ValueKind
  Loc :: SourceLoc

text \<open>
  One constructor per expression kind of the three switches.  \<open>UncheckedExpr\<close> stands for
  the kinds listed as \<^verbatim>\<open>UNCHECKED_EXPR\<close> in ExprNodes.def, which is not part of this
  file; its string names the kind.  A tuple expression carries the answer of
  \<^verbatim>\<open>isGroupingParen()\<close> and its elements; asking a tuple without elements for
  \<^verbatim>\<open>getElement(0)\<close> is a failed assertion.
\<close>

datatype Expr =
    IntegerLiteralExpr ExprInfo APInt
  | FloatLiteralExpr ExprInfo APFloat
  | LoadExpr ExprInfo Expr
  | CallExpr ExprInfo Expr Expr
  | UnaryExpr ExprInfo Expr Expr
  | BinaryExpr ExprInfo Expr Expr
  | ConstructorCallExpr ExprInfo Expr Expr
  | DotSyntaxCallExpr ExprInfo Expr Expr
  | TupleExpr ExprInfo bool "Expr list"
  | TupleElementExpr ExprInfo Expr nat
  | TupleShuffleExpr ExprInfo Expr "int list"
  | LookThroughOneofExpr ExprInfo Expr
  | DeclRefExpr ExprInfo ValueDecl
  | FuncExpr ExprInfo
  | ClosureExpr ExprInfo Expr
  | AnonClosureArgExpr ExprInfo nat
  | UncheckedExpr ExprInfo string

datatype ExprKind =
    IntegerLiteral | FloatLiteral | Load | Call | Unary | Binary | ConstructorCall
  | DotSyntaxCall | Tuple | TupleElement | TupleShuffle | LookThroughOneof | DeclRef
  | Func | Closure | AnonClosureArg | Unchecked

fun getKind :: "Expr \<Rightarrow> ExprKind" where
  "getKind (IntegerLiteralExpr i v) = IntegerLiteral"
| "getKind (FloatLiteralExpr i v) = FloatLiteral"
| "getKind (LoadExpr i e) = Load"
| "getKind (CallExpr i f a) = Call"
| "getKind (UnaryExpr i f a) = Unary"
| "getKind (BinaryExpr i f a) = Binary"
| "getKind (ConstructorCallExpr i f a) = ConstructorCall"
| "getKind (DotSyntaxCallExpr i f a) = DotSyntaxCall"
| "getKind (TupleExpr i g es) = Tuple"
| "getKind (TupleElementExpr i e n) = TupleElement"
| "getKind (TupleShuffleExpr i e m) = TupleShuffle"
| "getKind (LookThroughOneofExpr i e) = LookThroughOneof"
| "getKind (DeclRefExpr i d) = DeclRef"
| "getKind (FuncExpr i) = Func"
| "getKind (ClosureExpr i e) = Closure"
| "getKind (AnonClosureArgExpr i n) = AnonClosureArg"
| "getKind (UncheckedExpr i k) = Unchecked"

fun getInfo :: "Expr \<Rightarrow> ExprInfo" where
  "getInfo (IntegerLiteralExpr i v) = i"
| "getInfo (FloatLiteralExpr i v) = i"
| "getInfo (LoadExpr i e) = i"
| "getInfo (CallExpr i f a) = i"
| "getInfo (UnaryExpr i f a) = i"
| "getInfo (BinaryExpr i f a) = i"
| "getInfo (ConstructorCallExpr i f a) = i"
| "getInfo (DotSyntaxCallExpr i f a) = i"
| "getInfo (TupleExpr i g es) = i"
| "getInfo (TupleElementExpr i e n) = i"
| "getInfo (TupleShuffleExpr i e m) = i"
| "getInfo (LookThroughOneofExpr i e) = i"
| "getInfo (DeclRefExpr i d) = i"
| "getInfo (FuncExpr i) = i"
| "getInfo (ClosureExpr i e) = i"
| "getInfo (AnonClosureArgExpr i n) = i"
| "getInfo (UncheckedExpr i k) = i"

definition getType :: "Expr \<Rightarrow> Type" where
  "getType E = Ty (getInfo E)"

definition getValueKind :: "Expr \<Rightarrow> ValueKind" where
  "getValueKind E = VK (getInfo E)"

definition getLoc :: "Expr \<Rightarrow> SourceLoc" where
  "getLoc E = Loc (getInfo E)"

subsection \<open>The lowering context and the collaborators\<close>

text \<open>
  The context of one function being lowered: the calls issued to the instruction builder so
  far, the diagnostics recorded so far, and whatever state the rest of IRGen keeps (the module's
  symbol table, the locals), which this file never inspects.
\<close>

record 'm IRGenFunction =
  Builder :: "BuilderCall list"
  Diags :: "(SourceLoc \<times> string) list"
  IGM :: 'm

type_synonym ('a, 'm) lowering = "'m IRGenFunction \<Rightarrow> fatal + ('a \<times> 'm IRGenFunction)"

text \<open>
  The functions the file calls and does not define.  \<open>getFragileTypeInfo\<close> is the lookup
  of the module, which the function context forwards to.  \<open>explode\<close>, \<open>store\<close> and
  \<open>getExplosionSchema\<close> are the virtual methods of \<^verbatim>\<open>TypeInfo\<close>, taking the type
  information as their first argument.  \<open>emitTupleLiteral\<close> is the part of
  \<^verbatim>\<open>emitTupleExpr\<close> that builds a true tuple.
\<close>

record 'm Collaborators =
  getFragileTypeInfo :: "Type \<Rightarrow> TypeInfo"
  getExplosionSchema :: "TypeInfo \<Rightarrow> ExplosionKind \<Rightarrow> ExplosionSchemaElement list"
  explode :: "TypeInfo \<Rightarrow> RValue \<Rightarrow> Explosion \<Rightarrow> (Explosion, 'm) lowering"
  store :: "TypeInfo \<Rightarrow> RValue \<Rightarrow> Address \<Rightarrow> (unit, 'm) lowering"
  emitLoad :: "LValue \<Rightarrow> TypeInfo \<Rightarrow> (RValue, 'm) lowering"
  getLocal :: "ValueDecl \<Rightarrow> (Address, 'm) lowering"
  getGlobal :: "ValueDecl \<Rightarrow> TypeInfo \<Rightarrow> (LValue, 'm) lowering"
  getAddrOfInjectionFunction :: "ValueDecl \<Rightarrow> (llvm_value, 'm) lowering"
  emitRValueForFunction :: "ValueDecl \<Rightarrow> (RValue, 'm) lowering"
  emitApplyExpr :: "Expr \<Rightarrow> TypeInfo \<Rightarrow> (RValue, 'm) lowering"
  emitExplodedApplyExpr :: "Expr \<Rightarrow> Explosion \<Rightarrow> (Explosion, 'm) lowering"
  emitTupleLiteral :: "Expr \<Rightarrow> TypeInfo \<Rightarrow> (RValue, 'm) lowering"
  emitExplodedTupleLiteral :: "Expr \<Rightarrow> Explosion \<Rightarrow> (Explosion, 'm) lowering"
  emitTupleElementRValue :: "Expr \<Rightarrow> TypeInfo \<Rightarrow> (RValue, 'm) lowering"
  emitExplodedTupleElement :: "Expr \<Rightarrow> Explosion \<Rightarrow> (Explosion, 'm) lowering"
  emitTupleElementLValue :: "Expr \<Rightarrow> TypeInfo \<Rightarrow> (LValue, 'm) lowering"
  emitTupleShuffleExpr :: "Expr \<Rightarrow> TypeInfo \<Rightarrow> (RValue, 'm) lowering"
  emitExplodedTupleShuffle :: "Expr \<Rightarrow> Explosion \<Rightarrow> (Explosion, 'm) lowering"
  emitLookThroughOneofRValue :: "Expr \<Rightarrow> (RValue, 'm) lowering"
  emitLookThroughOneofLValue :: "Expr \<Rightarrow> (LValue, 'm) lowering"

text \<open>Sequencing: a fatal stop in the first step is the result; otherwise the second runs.\<close>

definition andThen ::
  "(fatal + ('a \<times> 's)) \<Rightarrow> ('a \<Rightarrow> 's \<Rightarrow> fatal + ('b \<times> 's)) \<Rightarrow> fatal + ('b \<times> 's)" where
  "andThen m f = (case m of Inl e \<Rightarrow> Inl e | Inr (a, s) \<Rightarrow> f a s)"

text \<open>
  Modelled from the spec: \<^verbatim>\<open>unimplemented\<close> (of \<^verbatim>\<open>IRGenModule\<close>, forwarded by
  \<^verbatim>\<open>IRGenFunction\<close>) is defined outside this file.  The spec has it record a diagnostic
  tied to the source location, without stopping the pass.
\<close>

definition unimplemented :: "SourceLoc \<Rightarrow> string \<Rightarrow> 'm IRGenFunction \<Rightarrow> 'm IRGenFunction" where
  "unimplemented loc msg s = s\<lparr>Diags := Diags s @ [(loc, msg)]\<rparr>"

subsection \<open>Literals\<close>

definition emitIntegerLiteralExpr :: "ExprInfo \<Rightarrow> APInt \<Rightarrow> fatal + llvm_value" where
  "emitIntegerLiteralExpr i v =
     (if isBuiltinIntegerType (Ty i) then Inr (ConstantInt v)
      else Inl (assertion_failed ''E->getType()->is<BuiltinIntegerType>()''))"

definition emitFloatLiteralExpr :: "ExprInfo \<Rightarrow> APFloat \<Rightarrow> fatal + llvm_value" where
  "emitFloatLiteralExpr i v =
     (if isBuiltinFloatType (Ty i) then Inr (ConstantFP v)
      else Inl (assertion_failed ''E->getType()->is<BuiltinFloatType>()''))"

subsection \<open>Placeholders for error recovery\<close>

definition emitFakeLValue :: "TypeInfo \<Rightarrow> LValue" where
  "emitFakeLValue type =
     (let fakeAddr = UndefValue (getPointerTo (StorageType type))
      in emitAddressLValue (Address fakeAddr (StorageAlignment type)))"

definition emitFakeRValue :: "TypeInfo \<Rightarrow> RValue" where
  "emitFakeRValue TInfo =
     (case getSchema TInfo of
        ScalarSchema tys \<Rightarrow> forScalars (map UndefValue tys)
      | AggregateSchema ty \<Rightarrow> forAggregate (UndefValue (getPointerTo ty)))"

fun elementType :: "ExplosionSchemaElement \<Rightarrow> llvm_type" where
  "elementType (AggregateElement ty) = getPointerTo ty"
| "elementType (ScalarElement ty) = ty"

definition emitFakeExplosion ::
  "'m Collaborators \<Rightarrow> TypeInfo \<Rightarrow> Explosion \<Rightarrow> Explosion" where
  "emitFakeExplosion C type explosion =
     foldl (\<lambda>ex element. add (UndefValue (elementType element)) ex)
       explosion (getExplosionSchema C type (ExKind explosion))"

subsection \<open>Declaration references\<close>

definition emitDeclRefLValue ::
  "'m Collaborators \<Rightarrow> ExprInfo \<Rightarrow> ValueDecl \<Rightarrow> TypeInfo \<Rightarrow> (LValue, 'm) lowering" where
  "emitDeclRefLValue C i D TInfo s =
     (case getDeclKind D of
        ExtensionDecl \<Rightarrow> Inl (llvm_unreachable ''decl is not a value decl'')
      | ImportDecl \<Rightarrow> Inl (llvm_unreachable ''decl is not a value decl'')
      | TypeAliasDecl \<Rightarrow> Inl (llvm_unreachable ''decl is not a value decl'')
      | FuncDecl \<Rightarrow> Inl (llvm_unreachable ''decl cannot be emitted as an l-value'')
      | VarDecl \<Rightarrow>
          (if isLocalContext D
           then andThen (getLocal C D s) (\<lambda>a s'. Inr (emitAddressLValue a, s'))
           else getGlobal C D TInfo s)
      | ArgDecl \<Rightarrow> andThen (getLocal C D s) (\<lambda>a s'. Inr (emitAddressLValue a, s'))
      | ElementRefDecl \<Rightarrow>
          Inr (emitFakeLValue TInfo, unimplemented (Loc i) ''emitting this decl as an l-value'' s)
      | OneOfElementDecl \<Rightarrow>
          Inr (emitFakeLValue TInfo, unimplemented (Loc i) ''emitting this decl as an l-value'' s))"

definition emitDeclRefRValue ::
  "'m Collaborators \<Rightarrow> ExprInfo \<Rightarrow> ValueDecl \<Rightarrow> TypeInfo \<Rightarrow> (RValue, 'm) lowering" where
  "emitDeclRefRValue C i D TInfo s =
     (case getDeclKind D of
        ExtensionDecl \<Rightarrow> Inl (llvm_unreachable ''decl is not a value decl'')
      | ImportDecl \<Rightarrow> Inl (llvm_unreachable ''decl is not a value decl'')
      | TypeAliasDecl \<Rightarrow> Inl (llvm_unreachable ''decl is not a value decl'')
      | ArgDecl \<Rightarrow> andThen (emitDeclRefLValue C i D TInfo s) (\<lambda>lv. emitLoad C lv TInfo)
      | VarDecl \<Rightarrow> andThen (emitDeclRefLValue C i D TInfo s) (\<lambda>lv. emitLoad C lv TInfo)
      | FuncDecl \<Rightarrow> emitRValueForFunction C D s
      | OneOfElementDecl \<Rightarrow>
          andThen (getAddrOfInjectionFunction C D s)
            (\<lambda>fn s'. let data = UndefValue Int8PtrTy in Inr (forScalars [fn, data], s'))
      | ElementRefDecl \<Rightarrow>
          Inr (emitFakeRValue TInfo, unimplemented (Loc i) ''emitting this decl as an r-value'' s))"

definition emitExplodedDeclRef ::
  "'m Collaborators \<Rightarrow> ExprInfo \<Rightarrow> ValueDecl \<Rightarrow> Explosion \<Rightarrow> (Explosion, 'm) lowering" where
  "emitExplodedDeclRef C i D explosion s =
     (let type = getFragileTypeInfo C (Ty i)
      in andThen (emitDeclRefRValue C i D type s) (\<lambda>rv. explode C type rv explosion))"

subsection \<open>The dispatcher\<close>

text \<open>
  Modelled from the spec: \<^verbatim>\<open>emitTupleExpr\<close>, which the tuple case of
  \<^verbatim>\<open>emitRValue\<close> calls and which is defined in another file.  The spec's table has the
  r-value lowering of a grouping-parenthesis tuple recurse into its sole element and that of a
  true tuple delegate to the tuple-construction collaborator (\<open>emitTupleLiteral\<close> here).

  \<^verbatim>\<open>emitRValue(E, TInfo)\<close> itself follows the switch of the source, case by case.
\<close>

fun
  emitRValue :: "'m Collaborators \<Rightarrow> Expr \<Rightarrow> TypeInfo \<Rightarrow> (RValue, 'm) lowering" and
  emitTupleExpr :: "'m Collaborators \<Rightarrow> Expr \<Rightarrow> TypeInfo \<Rightarrow> (RValue, 'm) lowering"
where
  "emitRValue C (UncheckedExpr i k) TInfo s =
     Inl (llvm_unreachable ''these expression kinds should not survive to IR-gen'')"
| "emitRValue C (LoadExpr i e) TInfo s = emitRValue C e TInfo s"
| "emitRValue C (CallExpr i f a) TInfo s = emitApplyExpr C (CallExpr i f a) TInfo s"
| "emitRValue C (UnaryExpr i f a) TInfo s = emitApplyExpr C (UnaryExpr i f a) TInfo s"
| "emitRValue C (BinaryExpr i f a) TInfo s = emitApplyExpr C (BinaryExpr i f a) TInfo s"
| "emitRValue C (ConstructorCallExpr i f a) TInfo s =
     emitApplyExpr C (ConstructorCallExpr i f a) TInfo s"
| "emitRValue C (DotSyntaxCallExpr i f a) TInfo s =
     emitApplyExpr C (DotSyntaxCallExpr i f a) TInfo s"
| "emitRValue C (IntegerLiteralExpr i v) TInfo s =
     (case emitIntegerLiteralExpr i v of Inl e \<Rightarrow> Inl e | Inr c \<Rightarrow> Inr (forScalars [c], s))"
| "emitRValue C (FloatLiteralExpr i v) TInfo s =
     (case emitFloatLiteralExpr i v of Inl e \<Rightarrow> Inl e | Inr c \<Rightarrow> Inr (forScalars [c], s))"
| "emitRValue C (TupleExpr i g es) TInfo s = emitTupleExpr C (TupleExpr i g es) TInfo s"
| "emitRValue C (TupleElementExpr i e n) TInfo s =
     emitTupleElementRValue C (TupleElementExpr i e n) TInfo s"
| "emitRValue C (TupleShuffleExpr i e m) TInfo s =
     emitTupleShuffleExpr C (TupleShuffleExpr i e m) TInfo s"
| "emitRValue C (LookThroughOneofExpr i e) TInfo s =
     emitLookThroughOneofRValue C (LookThroughOneofExpr i e) s"
| "emitRValue C (DeclRefExpr i d) TInfo s = emitDeclRefRValue C i d TInfo s"
| "emitRValue C (FuncExpr i) TInfo s =
     Inr (emitFakeRValue TInfo,
          unimplemented (Loc i) ''cannot generate r-values for this expression yet'' s)"
| "emitRValue C (ClosureExpr i e) TInfo s =
     Inr (emitFakeRValue TInfo,
          unimplemented (Loc i) ''cannot generate r-values for this expression yet'' s)"
| "emitRValue C (AnonClosureArgExpr i n) TInfo s =
     Inr (emitFakeRValue TInfo,
          unimplemented (Loc i) ''cannot generate r-values for this expression yet'' s)"
| "emitTupleExpr C (TupleExpr i g (e # es)) TInfo s =
     (if g then emitRValue C e TInfo s
      else emitTupleLiteral C (TupleExpr i g (e # es)) TInfo s)"
| "emitTupleExpr C (TupleExpr i g []) TInfo s =
     (if g then Inl (assertion_failed ''getElement: no such element'')
      else emitTupleLiteral C (TupleExpr i g []) TInfo s)"
| "emitTupleExpr C E TInfo s = Inl (assertion_failed ''cast<TupleExpr>'')"

text \<open>\<^verbatim>\<open>emitRValue(E)\<close>, the overload that looks the type information up.\<close>

definition emitRValue1 :: "'m Collaborators \<Rightarrow> Expr \<Rightarrow> (RValue, 'm) lowering" where
  "emitRValue1 C E s = (let type = getFragileTypeInfo C (getType E) in emitRValue C E type s)"

fun emitExplodedRValue ::
  "'m Collaborators \<Rightarrow> Expr \<Rightarrow> Explosion \<Rightarrow> (Explosion, 'm) lowering" where
  "emitExplodedRValue C (UncheckedExpr i k) explosion s =
     Inl (llvm_unreachable ''these expression kinds should not survive to IR-gen'')"
| "emitExplodedRValue C (LoadExpr i e) explosion s = emitExplodedRValue C e explosion s"
| "emitExplodedRValue C (TupleExpr i g (e # es)) explosion s =
     (if g then emitExplodedRValue C e explosion s
      else emitExplodedTupleLiteral C (TupleExpr i g (e # es)) explosion s)"
| "emitExplodedRValue C (TupleExpr i g []) explosion s =
     (if g then Inl (assertion_failed ''getElement: no such element'')
      else emitExplodedTupleLiteral C (TupleExpr i g []) explosion s)"
| "emitExplodedRValue C (TupleShuffleExpr i e m) explosion s =
     emitExplodedTupleShuffle C (TupleShuffleExpr i e m) explosion s"
| "emitExplodedRValue C (TupleElementExpr i e n) explosion s =
     emitExplodedTupleElement C (TupleElementExpr i e n) explosion s"
| "emitExplodedRValue C (CallExpr i f a) explosion s =
     emitExplodedApplyExpr C (CallExpr i f a) explosion s"
| "emitExplodedRValue C (UnaryExpr i f a) explosion s =
     emitExplodedApplyExpr C (UnaryExpr i f a) explosion s"
| "emitExplodedRValue C (BinaryExpr i f a) explosion s =
     emitExplodedApplyExpr C (BinaryExpr i f a) explosion s"
| "emitExplodedRValue C (ConstructorCallExpr i f a) explosion s =
     emitExplodedApplyExpr C (ConstructorCallExpr i f a) explosion s"
| "emitExplodedRValue C (DotSyntaxCallExpr i f a) explosion s =
     emitExplodedApplyExpr C (DotSyntaxCallExpr i f a) explosion s"
| "emitExplodedRValue C (IntegerLiteralExpr i v) explosion s =
     (case emitIntegerLiteralExpr i v of Inl e \<Rightarrow> Inl e | Inr c \<Rightarrow> Inr (add c explosion, s))"
| "emitExplodedRValue C (FloatLiteralExpr i v) explosion s =
     (case emitFloatLiteralExpr i v of Inl e \<Rightarrow> Inl e | Inr c \<Rightarrow> Inr (add c explosion, s))"
| "emitExplodedRValue C (LookThroughOneofExpr i e) explosion s =
     emitExplodedRValue C e explosion s"
| "emitExplodedRValue C (DeclRefExpr i d) explosion s = emitExplodedDeclRef C i d explosion s"
| "emitExplodedRValue C (FuncExpr i) explosion s =
     (let s' = unimplemented (Loc i) ''cannot explode r-values for this expression yet'' s
      in Inr (emitFakeExplosion C (getFragileTypeInfo C (Ty i)) explosion, s'))"
| "emitExplodedRValue C (ClosureExpr i e) explosion s =
     (let s' = unimplemented (Loc i) ''cannot explode r-values for this expression yet'' s
      in Inr (emitFakeExplosion C (getFragileTypeInfo C (Ty i)) explosion, s'))"
| "emitExplodedRValue C (AnonClosureArgExpr i n) explosion s =
     (let s' = unimplemented (Loc i) ''cannot explode r-values for this expression yet'' s
      in Inr (emitFakeExplosion C (getFragileTypeInfo C (Ty i)) explosion, s'))"

definition emitAsPrimitiveScalar :: "'m Collaborators \<Rightarrow> Expr \<Rightarrow> (llvm_value, 'm) lowering" where
  "emitAsPrimitiveScalar C E s =
     andThen (emitExplodedRValue C E (newExplosion Minimal) s)
       (\<lambda>explosion s'.
          case claimNext explosion of
            Inl e \<Rightarrow> Inl e
          | Inr (result, explosion') \<Rightarrow>
              if empty explosion' then Inr (result, s')
              else Inl (assertion_failed ''explosion.empty()''))"

text \<open>
  \<^verbatim>\<open>emitLValue(E, TInfo)\<close>.  The assertion on the value kind comes before the switch, so
  it guards every case.
\<close>

definition assertLValueKind :: "ExprInfo \<Rightarrow> (fatal + 'a) \<Rightarrow> fatal + 'a" where
  "assertLValueKind i k =
     (if VK i = LValueKind then k
      else Inl (assertion_failed ''E->getValueKind() == ValueKind::LValue''))"

fun emitLValue :: "'m Collaborators \<Rightarrow> Expr \<Rightarrow> TypeInfo \<Rightarrow> (LValue, 'm) lowering" where
  "emitLValue C (UncheckedExpr i k) TInfo s =
     assertLValueKind i
       (Inl (llvm_unreachable ''these expression kinds should not survive to IR-gen''))"
| "emitLValue C (CallExpr i f a) TInfo s =
     assertLValueKind i (Inl (llvm_unreachable ''these expression kinds should never be l-values''))"
| "emitLValue C (UnaryExpr i f a) TInfo s =
     assertLValueKind i (Inl (llvm_unreachable ''these expression kinds should never be l-values''))"
| "emitLValue C (BinaryExpr i f a) TInfo s =
     assertLValueKind i (Inl (llvm_unreachable ''these expression kinds should never be l-values''))"
| "emitLValue C (IntegerLiteralExpr i v) TInfo s =
     assertLValueKind i (Inl (llvm_unreachable ''these expression kinds should never be l-values''))"
| "emitLValue C (FloatLiteralExpr i v) TInfo s =
     assertLValueKind i (Inl (llvm_unreachable ''these expression kinds should never be l-values''))"
| "emitLValue C (TupleShuffleExpr i e m) TInfo s =
     assertLValueKind i (Inl (llvm_unreachable ''these expression kinds should never be l-values''))"
| "emitLValue C (FuncExpr i) TInfo s =
     assertLValueKind i (Inl (llvm_unreachable ''these expression kinds should never be l-values''))"
| "emitLValue C (ClosureExpr i e) TInfo s =
     assertLValueKind i (Inl (llvm_unreachable ''these expression kinds should never be l-values''))"
| "emitLValue C (AnonClosureArgExpr i n) TInfo s =
     assertLValueKind i (Inl (llvm_unreachable ''these expression kinds should never be l-values''))"
| "emitLValue C (LoadExpr i e) TInfo s =
     assertLValueKind i (Inl (llvm_unreachable ''these expression kinds should never be l-values''))"
| "emitLValue C (ConstructorCallExpr i f a) TInfo s =
     assertLValueKind i
       (Inr (emitFakeLValue TInfo,
             unimplemented (Loc i) ''cannot generate l-values for this expression yet'' s))"
| "emitLValue C (DotSyntaxCallExpr i f a) TInfo s =
     assertLValueKind i
       (Inr (emitFakeLValue TInfo,
             unimplemented (Loc i) ''cannot generate l-values for this expression yet'' s))"
| "emitLValue C (TupleExpr i g (e # es)) TInfo s =
     assertLValueKind i
       (if g then emitLValue C e TInfo s
        else Inl (assertion_failed ''emitting non-grouping tuple as l-value''))"
| "emitLValue C (TupleExpr i g []) TInfo s =
     assertLValueKind i
       (if g then Inl (assertion_failed ''getElement: no such element'')
        else Inl (assertion_failed ''emitting non-grouping tuple as l-value''))"
| "emitLValue C (TupleElementExpr i e n) TInfo s =
     assertLValueKind i (emitTupleElementLValue C (TupleElementExpr i e n) TInfo s)"
| "emitLValue C (LookThroughOneofExpr i e) TInfo s =
     assertLValueKind i (emitLookThroughOneofLValue C (LookThroughOneofExpr i e) s)"
| "emitLValue C (DeclRefExpr i d) TInfo s =
     assertLValueKind i (emitDeclRefLValue C i d TInfo s)"

text \<open>\<^verbatim>\<open>emitLValue(E)\<close>, the overload that looks the type information up.\<close>

definition emitLValue1 :: "'m Collaborators \<Rightarrow> Expr \<Rightarrow> (LValue, 'm) lowering" where
  "emitLValue1 C E s = (let TInfo = getFragileTypeInfo C (getType E) in emitLValue C E TInfo s)"

text \<open>
  \<^verbatim>\<open>tryEmitAsLValue\<close>: \<open>None\<close> is \<^verbatim>\<open>Nothing\<close>.  The test of the value kind comes
  before the switch, so it is the first branch of every case.
\<close>

definition present :: "(fatal + (LValue \<times> 's)) \<Rightarrow> fatal + (LValue option \<times> 's)" where
  "present r = (case r of Inl e \<Rightarrow> Inl e | Inr (lv, s) \<Rightarrow> Inr (Some lv, s))"

fun tryEmitAsLValue ::
  "'m Collaborators \<Rightarrow> Expr \<Rightarrow> TypeInfo \<Rightarrow> (LValue option, 'm) lowering" where
  "tryEmitAsLValue C (UncheckedExpr i k) type s =
     (if VK i = LValueKind then present (emitLValue C (UncheckedExpr i k) type s)
      else Inl (llvm_unreachable ''these expression kinds should not survive to IR-gen''))"
| "tryEmitAsLValue C (LoadExpr i e) type s =
     (if VK i = LValueKind then present (emitLValue C (LoadExpr i e) type s)
      else present (emitLValue C e type s))"
| "tryEmitAsLValue C (CallExpr i f a) type s =
     (if VK i = LValueKind then present (emitLValue C (CallExpr i f a) type s)
      else Inr (None, s))"
| "tryEmitAsLValue C (UnaryExpr i f a) type s =
     (if VK i = LValueKind then present (emitLValue C (UnaryExpr i f a) type s)
      else Inr (None, s))"
| "tryEmitAsLValue C (BinaryExpr i f a) type s =
     (if VK i = LValueKind then present (emitLValue C (BinaryExpr i f a) type s)
      else Inr (None, s))"
| "tryEmitAsLValue C (IntegerLiteralExpr i v) type s =
     (if VK i = LValueKind then present (emitLValue C (IntegerLiteralExpr i v) type s)
      else Inr (None, s))"
| "tryEmitAsLValue C (FloatLiteralExpr i v) type s =
     (if VK i = LValueKind then present (emitLValue C (FloatLiteralExpr i v) type s)
      else Inr (None, s))"
| "tryEmitAsLValue C (DeclRefExpr i d) type s =
     (if VK i = LValueKind then present (emitLValue C (DeclRefExpr i d) type s)
      else Inr (None, s))"
| "tryEmitAsLValue C (FuncExpr i) type s =
     (if VK i = LValueKind then present (emitLValue C (FuncExpr i) type s)
      else Inr (None, s))"
| "tryEmitAsLValue C (ClosureExpr i e) type s =
     (if VK i = LValueKind then present (emitLValue C (ClosureExpr i e) type s)
      else Inr (None, s))"
| "tryEmitAsLValue C (AnonClosureArgExpr i n) type s =
     (if VK i = LValueKind then present (emitLValue C (AnonClosureArgExpr i n) type s)
      else Inr (None, s))"
| "tryEmitAsLValue C (DotSyntaxCallExpr i f a) type s =
     (if VK i = LValueKind then present (emitLValue C (DotSyntaxCallExpr i f a) type s)
      else Inr (None, s))"
| "tryEmitAsLValue C (ConstructorCallExpr i f a) type s =
     (if VK i = LValueKind then present (emitLValue C (ConstructorCallExpr i f a) type s)
      else Inr (None, s))"
| "tryEmitAsLValue C (TupleExpr i g (e # es)) type s =
     (if VK i = LValueKind then present (emitLValue C (TupleExpr i g (e # es)) type s)
      else if g then tryEmitAsLValue C e type s
      else Inr (None, s))"
| "tryEmitAsLValue C (TupleExpr i g []) type s =
     (if VK i = LValueKind then present (emitLValue C (TupleExpr i g []) type s)
      else if g then Inl (assertion_failed ''getElement: no such element'')
      else Inr (None, s))"
| "tryEmitAsLValue C (TupleElementExpr i e n) type s =
     (if VK i = LValueKind then present (emitLValue C (TupleElementExpr i e n) type s)
      else Inr (None, s))"
| "tryEmitAsLValue C (TupleShuffleExpr i e m) type s =
     (if VK i = LValueKind then present (emitLValue C (TupleShuffleExpr i e m) type s)
      else Inr (None, s))"
| "tryEmitAsLValue C (LookThroughOneofExpr i e) type s =
     (if VK i = LValueKind then present (emitLValue C (LookThroughOneofExpr i e) type s)
      else Inr (None, s))"

subsection \<open>Memory helpers\<close>

definition emitRValueToMemory ::
  "'m Collaborators \<Rightarrow> Expr \<Rightarrow> Address \<Rightarrow> TypeInfo \<Rightarrow> (unit, 'm) lowering" where
  "emitRValueToMemory C E addr type s =
     andThen (emitRValue C E type s) (\<lambda>RV. store C type RV addr)"

definition emitInit ::
  "'m Collaborators \<Rightarrow> Address \<Rightarrow> Expr \<Rightarrow> TypeInfo \<Rightarrow> (unit, 'm) lowering" where
  "emitInit C addr E type s = emitRValueToMemory C E addr type s"

definition emitZeroInit ::
  "'m Collaborators \<Rightarrow> Address \<Rightarrow> TypeInfo \<Rightarrow> (unit, 'm) lowering" where
  "emitZeroInit C addr type s =
     (case getSchema type of
        ScalarSchema tys \<Rightarrow>
          (let scalars = map getNullValue tys
           in store C type (forScalars scalars) addr s)
      | AggregateSchema aggTy \<Rightarrow>
          (let s1 = s\<lparr>Builder := Builder s @ [CreateBitCast (getAddress addr) Int8PtrTy]\<rparr>;
               ptr = BitCast (getAddress addr) Int8PtrTy;
               s2 = s1\<lparr>Builder := Builder s1 @
                      [CreateMemSet ptr (getInt8 0) (getInt64 (StorageSize type))
                         (getAlignment addr) False]\<rparr>
           in Inr ((), s2)))"

definition emitIgnored :: "'m Collaborators \<Rightarrow> Expr \<Rightarrow> (unit, 'm) lowering" where
  "emitIgnored C E s = andThen (emitRValue1 C E s) (\<lambda>rv s'. Inr ((), s'))"

subsection \<open>Notions used to state the properties\<close>

text \<open>
  Flattening the r-value of an expression: lower it with \<^verbatim>\<open>emitRValue(E)\<close>, then let
  the \<^verbatim>\<open>explode\<close> method of its type append the result to the explosion.
\<close>

definition flattenRValue ::
  "'m Collaborators \<Rightarrow> Expr \<Rightarrow> Explosion \<Rightarrow> (Explosion, 'm) lowering" where
  "flattenRValue C E explosion s =
     andThen (emitRValue1 C E s)
       (\<lambda>rv. explode C (getFragileTypeInfo C (getType E)) rv explosion)"

text \<open>
  The contract of \<^verbatim>\<open>TypeInfo::explode\<close> on an r-value that already is a scalar
  sequence: the scalars are appended in order and nothing else happens.
\<close>

definition explodesScalarsVerbatim :: "'m Collaborators \<Rightarrow> TypeInfo \<Rightarrow> bool" where
  "explodesScalarsVerbatim C type =
     (\<forall>vs ex s. explode C type (forScalars vs) ex s = Inr (ex\<lparr>Values := Values ex @ vs\<rparr>, s))"

text \<open>
  The expression \<^verbatim>\<open>tryEmitAsLValue\<close> hands to \<^verbatim>\<open>emitLValue\<close>, if any: the
  expression itself when it is of l-value kind, the operand of a load, or what a grouping
  parenthesis unwraps to.
\<close>

fun unwrapToLValue :: "Expr \<Rightarrow> Expr option" where
  "unwrapToLValue (LoadExpr i e) =
     (if VK i = LValueKind then Some (LoadExpr i e) else Some e)"
| "unwrapToLValue (TupleExpr i g (e # es)) =
     (if VK i = LValueKind then Some (TupleExpr i g (e # es))
      else if g then unwrapToLValue e else None)"
| "unwrapToLValue E = (if getValueKind E = LValueKind then Some E else None)"

text \<open>The shape of a placeholder r-value: undefined content in the form the schema gives.\<close>

fun undefinedOfSchema :: "RValueSchema \<Rightarrow> RValue \<Rightarrow> bool" where
  "undefinedOfSchema (ScalarSchema tys) (forScalars vs) = (vs = map UndefValue tys)"
| "undefinedOfSchema (AggregateSchema ty) (forAggregate a) = (a = UndefValue (PointerTy ty))"
| "undefinedOfSchema schema rv = False"

fun isMemSet :: "BuilderCall \<Rightarrow> bool" where
  "isMemSet (CreateMemSet p v n a vol) = True"
| "isMemSet c = False"

fun isFatal :: "fatal + 'a \<Rightarrow> bool" where
  "isFatal (Inl e) = True"
| "isFatal (Inr r) = False"

subsection \<open>A concrete instance of the collaborators\<close>

text \<open>
  A small IRGen to run the functions on concrete expressions: builtin types are scalar, any
  other type is an aggregate of 24 bytes; loads, stores and calls leave a builder call.
\<close>

definition exampleTypeInfo :: "Type \<Rightarrow> TypeInfo" where
  "exampleTypeInfo t =
     (case t of
        BuiltinIntegerType w \<Rightarrow>
          \<lparr>StorageType = IntegerTy w, StorageSize = 4, StorageAlignment = 4,
           getSchema = ScalarSchema [IntegerTy w]\<rparr>
      | BuiltinFloatType \<Rightarrow>
          \<lparr>StorageType = FloatingPointTy, StorageSize = 8, StorageAlignment = 8,
           getSchema = ScalarSchema [FloatingPointTy]\<rparr>
      | OtherType n \<Rightarrow>
          \<lparr>StorageType = OpaqueTy n, StorageSize = 24, StorageAlignment = 8,
           getSchema = AggregateSchema (OpaqueTy n)\<rparr>)"

definition exampleExplosionSchema :: "TypeInfo \<Rightarrow> ExplosionKind \<Rightarrow> ExplosionSchemaElement list" where
  "exampleExplosionSchema type k =
     (case getSchema type of
        ScalarSchema tys \<Rightarrow> map ScalarElement tys
      | AggregateSchema ty \<Rightarrow> [AggregateElement ty])"

definition exampleExplode :: "TypeInfo \<Rightarrow> RValue \<Rightarrow> Explosion \<Rightarrow> (Explosion, unit) lowering" where
  "exampleExplode type rv ex s =
     (case rv of
        forScalars vs \<Rightarrow> Inr (ex\<lparr>Values := Values ex @ vs\<rparr>, s)
      | forAggregate a \<Rightarrow> Inr (add a ex, s))"

definition exampleCall :: "string \<Rightarrow> llvm_value list \<Rightarrow> 'a \<Rightarrow> ('a, unit) lowering" where
  "exampleCall name args result s = Inr (result, s\<lparr>Builder := Builder s @ [OtherCall name args]\<rparr>)"

definition exampleIRGen :: "unit Collaborators" where
  "exampleIRGen =
     \<lparr>getFragileTypeInfo = exampleTypeInfo,
      getExplosionSchema = exampleExplosionSchema,
      explode = exampleExplode,
      store = (\<lambda>type rv addr.
        exampleCall ''store'' (getAddress addr # (case rv of forScalars vs \<Rightarrow> vs | forAggregate a \<Rightarrow> [a])) ()),
      emitLoad = (\<lambda>lv type.
        exampleCall ''load'' [getAddress (getLValueAddress lv)] (forScalars [OtherValue ''loaded''])),
      getLocal = (\<lambda>D s. Inr (Address (OtherValue (getName D)) 4, s)),
      getGlobal = (\<lambda>D type s.
        Inr (AddressLValue (Address (OtherValue (getName D)) (StorageAlignment type)), s)),
      getAddrOfInjectionFunction = (\<lambda>D s. Inr (OtherValue (getName D), s)),
      emitRValueForFunction = (\<lambda>D s. Inr (forScalars [OtherValue (getName D), UndefValue Int8PtrTy], s)),
      emitApplyExpr = (\<lambda>E type. exampleCall ''apply'' [] (forScalars [OtherValue ''applied''])),
      emitExplodedApplyExpr = (\<lambda>E ex. exampleCall ''apply'' [] (add (OtherValue ''applied'') ex)),
      emitTupleLiteral = (\<lambda>E type s. Inr (forScalars [], s)),
      emitExplodedTupleLiteral = (\<lambda>E ex s. Inr (ex, s)),
      emitTupleElementRValue = (\<lambda>E type. exampleCall ''element'' [] (forScalars [OtherValue ''element''])),
      emitExplodedTupleElement = (\<lambda>E ex. exampleCall ''element'' [] (add (OtherValue ''element'') ex)),
      emitTupleElementLValue = (\<lambda>E type s.
        Inr (AddressLValue (Address (OtherValue ''element.addr'') (StorageAlignment type)), s)),
      emitTupleShuffleExpr = (\<lambda>E type s. Inr (forScalars [], s)),
      emitExplodedTupleShuffle = (\<lambda>E ex s. Inr (ex, s)),
      emitLookThroughOneofRValue = (\<lambda>E. exampleCall ''payload'' [] (forScalars [OtherValue ''payload''])),
      emitLookThroughOneofLValue = (\<lambda>E s.
        Inr (AddressLValue (Address (OtherValue ''payload.addr'') 8), s))\<rparr>"

definition emptyContext :: "unit IRGenFunction" where
  "emptyContext = \<lparr>Builder = [], Diags = [], IGM = ()\<rparr>"

definition int32 :: Type where
  "int32 = BuiltinIntegerType 32"

text \<open>The literal \<open>42\<close>, a local variable \<open>x\<close>, a function \<open>f\<close> and the call \<open>f(42)\<close>.\<close>

definition literal42 :: Expr where
  "literal42 = IntegerLiteralExpr \<lparr>Ty = int32, VK = RValueKind, Loc = 1\<rparr> (APInt 32 42)"

definition localX :: ValueDecl where
  "localX = \<lparr>getDeclKind = VarDecl, getName = ''x'', isLocalContext = True\<rparr>"

definition refX :: Expr where
  "refX = DeclRefExpr \<lparr>Ty = int32, VK = LValueKind, Loc = 2\<rparr> localX"

definition funcF :: ValueDecl where
  "funcF = \<lparr>getDeclKind = FuncDecl, getName = ''f'', isLocalContext = False\<rparr>"

definition refF :: Expr where
  "refF = DeclRefExpr \<lparr>Ty = OtherType ''(int32) -> int32'', VK = RValueKind, Loc = 3\<rparr> funcF"

definition callF :: "ValueKind \<Rightarrow> Expr" where
  "callF k = CallExpr \<lparr>Ty = int32, VK = k, Loc = 4\<rparr> refF literal42"

text \<open>The grouping parenthesis \<open>(x)\<close> and the load of \<open>x\<close>.\<close>

definition parenX :: Expr where
  "parenX = TupleExpr \<lparr>Ty = int32, VK = LValueKind, Loc = 5\<rparr> True [refX]"

definition loadX :: Expr where
  "loadX = LoadExpr \<lparr>Ty = int32, VK = RValueKind, Loc = 6\<rparr> refX"

text \<open>
  A constructor call of l-value kind, a closure literal, the empty tuple, a case of a sum
  type and a pattern-bound element.
\<close>

definition ctorCall :: Expr where
  "ctorCall = ConstructorCallExpr \<lparr>Ty = OtherType ''Point'', VK = LValueKind, Loc = 7\<rparr> refF literal42"

definition closure :: Expr where
  "closure = ClosureExpr \<lparr>Ty = OtherType ''() -> int32'', VK = RValueKind, Loc = 8\<rparr> literal42"

definition emptyTuple :: Expr where
  "emptyTuple = TupleExpr \<lparr>Ty = OtherType ''()'', VK = RValueKind, Loc = 9\<rparr> False []"

definition caseSome :: ValueDecl where
  "caseSome = \<lparr>getDeclKind = OneOfElementDecl, getName = ''Some'', isLocalContext = False\<rparr>"

definition elementY :: ValueDecl where
  "elementY = \<lparr>getDeclKind = ElementRefDecl, getName = ''y'', isLocalContext = True\<rparr>"

definition addrX :: Address where
  "addrX = Address (OtherValue ''x'') 4"

text \<open>The builder calls issued between two contexts that are memory clears.\<close>

definition memSetsIssued :: "'m IRGenFunction \<Rightarrow> 'm IRGenFunction \<Rightarrow> BuilderCall list" where
  "memSetsIssued s s' = filter isMemSet (drop (length (Builder s)) (Builder s'))"

section \<open>Properties\<close>

subsection \<open>Auxiliary facts\<close>

lemma emitLValue_needs_lvalue_kind:
  "getValueKind E \<noteq> LValueKind \<Longrightarrow>
   emitLValue C E TInfo s = Inl (assertion_failed ''E->getValueKind() == ValueKind::LValue'')"
  by (induction C E TInfo s rule: emitLValue.induct)
     (simp_all add: getValueKind_def assertLValueKind_def)

lemma emitLValue_returns_lvalue_kind:
  "emitLValue C E TInfo s = Inr r \<Longrightarrow> getValueKind E = LValueKind"
  using emitLValue_needs_lvalue_kind [of E C TInfo s] by auto

lemma present_Some: "present r = Inr (Some lv, s') \<longleftrightarrow> r = Inr (lv, s')"
  by (auto simp: present_def split: sum.splits)

lemma fake_rvalue_of_literal_kinds:
  "getKind E \<in> {Func, Closure, AnonClosureArg} \<Longrightarrow>
   emitRValue C E TInfo s =
     Inr (emitFakeRValue TInfo,
          s\<lparr>Diags := Diags s @ [(getLoc E, ''cannot generate r-values for this expression yet'')]\<rparr>)"
  by (cases E) (auto simp: getLoc_def unimplemented_def)

lemma fake_explosion_of_literal_kinds:
  "getKind E \<in> {Func, Closure, AnonClosureArg} \<Longrightarrow>
   emitExplodedRValue C E explosion s =
     Inr (emitFakeExplosion C (getFragileTypeInfo C (getType E)) explosion,
          s\<lparr>Diags := Diags s @ [(getLoc E, ''cannot explode r-values for this expression yet'')]\<rparr>)"
  by (cases E) (auto simp: getLoc_def getType_def unimplemented_def)

lemma fake_lvalue_of_calls:
  "getKind E \<in> {ConstructorCall, DotSyntaxCall} \<Longrightarrow> getValueKind E = LValueKind \<Longrightarrow>
   emitLValue C E TInfo s =
     Inr (emitFakeLValue TInfo,
          s\<lparr>Diags := Diags s @ [(getLoc E, ''cannot generate l-values for this expression yet'')]\<rparr>)"
  by (cases E) (auto simp: getValueKind_def getLoc_def assertLValueKind_def unimplemented_def)

lemma fake_rvalue_of_element_ref:
  "getDeclKind D = ElementRefDecl \<Longrightarrow>
   emitRValue C (DeclRefExpr i D) TInfo s =
     Inr (emitFakeRValue TInfo,
          s\<lparr>Diags := Diags s @ [(Loc i, ''emitting this decl as an r-value'')]\<rparr>)"
  by (simp add: emitDeclRefRValue_def unimplemented_def)

lemma exploded_element_ref:
  "getDeclKind D = ElementRefDecl \<Longrightarrow>
   emitExplodedRValue C (DeclRefExpr i D) explosion s =
     explode C (getFragileTypeInfo C (Ty i)) (emitFakeRValue (getFragileTypeInfo C (Ty i)))
       explosion (s\<lparr>Diags := Diags s @ [(Loc i, ''emitting this decl as an r-value'')]\<rparr>)"
  by (simp add: emitExplodedDeclRef_def emitDeclRefRValue_def unimplemented_def andThen_def Let_def)

lemma fake_lvalue_of_decl:
  "getDeclKind D \<in> {ElementRefDecl, OneOfElementDecl} \<Longrightarrow> VK i = LValueKind \<Longrightarrow>
   emitLValue C (DeclRefExpr i D) TInfo s =
     Inr (emitFakeLValue TInfo,
          s\<lparr>Diags := Diags s @ [(Loc i, ''emitting this decl as an l-value'')]\<rparr>)"
  by (auto simp: emitDeclRefLValue_def assertLValueKind_def unimplemented_def)

lemma emitFakeRValue_shape: "undefinedOfSchema (getSchema TInfo) (emitFakeRValue TInfo)"
  by (cases "getSchema TInfo") (simp_all add: emitFakeRValue_def getPointerTo_def)

lemma emitFakeLValue_shape:
  "emitFakeLValue TInfo =
     AddressLValue (Address (UndefValue (PointerTy (StorageType TInfo))) (StorageAlignment TInfo))"
  by (simp add: emitFakeLValue_def emitAddressLValue_def getPointerTo_def)

text \<open>The loop of \<^verbatim>\<open>emitFakeExplosion\<close> appends one value per schema element.\<close>

lemma foldl_add_Values:
  "Values (foldl (\<lambda>ex element. add (UndefValue (elementType element)) ex) explosion els) =
     Values explosion @ map (\<lambda>element. UndefValue (elementType element)) els"
  by (induction els arbitrary: explosion) (simp_all add: add_def)

lemma foldl_add_ExKind:
  "ExKind (foldl (\<lambda>ex element. add (UndefValue (elementType element)) ex) explosion els) =
     ExKind explosion"
  by (induction els arbitrary: explosion) (simp_all add: add_def)

lemma emitFakeExplosion_shape:
  "Values (emitFakeExplosion C type explosion) =
     Values explosion @
       map (\<lambda>element. UndefValue (elementType element))
         (getExplosionSchema C type (ExKind explosion))"
  by (simp add: emitFakeExplosion_def foldl_add_Values)

lemma at_least_two: "2 \<le> length xs \<Longrightarrow> \<exists>a b ys. xs = a # b # ys"
  by (cases xs; cases "tl xs") auto

subsection \<open>R-value and exploded lowering agree\<close>

text \<open>
  Claim C1.  For an integer literal, a float literal or a declaration reference, flattening
  the r-value that \<^verbatim>\<open>emitRValue\<close> returns appends to an explosion (a fresh one in
  particular) exactly what \<^verbatim>\<open>emitExplodedRValue\<close> appends, with the same context
  afterwards and the same fatal stops.  Flattening is done by the \<^verbatim>\<open>explode\<close> method
  of the expression's type, which is not defined in this file: for the literals the statement
  needs that this method appends a scalar r-value as it is; for declaration references nothing
  is needed, the exploded lowering being defined as this very flattening.
\<close>

theorem rvalue_exploded_equivalence:
  assumes kind: "getKind E = IntegerLiteral \<or> getKind E = FloatLiteral \<or> getKind E = DeclRef"
    and contract: "getKind E \<noteq> DeclRef \<Longrightarrow>
                   explodesScalarsVerbatim C (getFragileTypeInfo C (getType E))"
  shows "flattenRValue C E explosion s = emitExplodedRValue C E explosion s"
proof (cases E)
  case (IntegerLiteralExpr i v)
  with contract have "explodesScalarsVerbatim C (getFragileTypeInfo C (Ty i))"
    by (simp add: getType_def)
  then show ?thesis
    using IntegerLiteralExpr
    by (simp add: flattenRValue_def emitRValue1_def getType_def explodesScalarsVerbatim_def
        andThen_def add_def split: sum.splits)
next
  case (FloatLiteralExpr i v)
  with contract have "explodesScalarsVerbatim C (getFragileTypeInfo C (Ty i))"
    by (simp add: getType_def)
  then show ?thesis
    using FloatLiteralExpr
    by (simp add: flattenRValue_def emitRValue1_def getType_def explodesScalarsVerbatim_def
        andThen_def add_def split: sum.splits)
next
  case (DeclRefExpr i d)
  then show ?thesis
    by (simp add: flattenRValue_def emitRValue1_def getType_def emitExplodedDeclRef_def Let_def)
qed (use kind in simp_all)

theorem rvalue_exploded_equivalence_witness:
  "getKind literal42 = IntegerLiteral
   \<and> explodesScalarsVerbatim exampleIRGen (getFragileTypeInfo exampleIRGen (getType literal42))
   \<and> flattenRValue exampleIRGen literal42 (newExplosion Minimal) emptyContext =
       Inr (\<lparr>ExKind = Minimal, Values = [ConstantInt (APInt 32 42)]\<rparr>, emptyContext)"
proof -
  have k: "getKind literal42 = IntegerLiteral \<or> getKind literal42 = FloatLiteral
           \<or> getKind literal42 = DeclRef"
    by (simp add: literal42_def)
  have c: "explodesScalarsVerbatim exampleIRGen (getFragileTypeInfo exampleIRGen (getType literal42))"
    by (simp add: explodesScalarsVerbatim_def exampleIRGen_def exampleExplode_def)
  have r: "emitExplodedRValue exampleIRGen literal42 (newExplosion Minimal) emptyContext =
     Inr (\<lparr>ExKind = Minimal, Values = [ConstantInt (APInt 32 42)]\<rparr>, emptyContext)"
    by (simp add: literal42_def emitIntegerLiteralExpr_def int32_def add_def newExplosion_def)
  show ?thesis
    using rvalue_exploded_equivalence [OF k c, of "newExplosion Minimal" emptyContext] r c
    by (simp add: literal42_def)
qed

subsection \<open>Grouping parentheses\<close>

text \<open>
  Claim C2.  Lowering a single-element grouping parenthesis \<open>(e)\<close> gives what lowering
  \<open>e\<close> gives, in each of the three forms: as an r-value, exploded, and as an l-value.  For
  the l-value form the parenthesis is of l-value kind, as \<^verbatim>\<open>emitLValue\<close> requires, or of
  the kind of \<open>e\<close>.  The overloads that look the type information up agree when the
  parenthesis and \<open>e\<close> have the same type information, which holds when they have the same
  type.
\<close>

theorem grouping_paren_transparency:
  "emitRValue C (TupleExpr i True [e]) TInfo s = emitRValue C e TInfo s
   \<and> emitExplodedRValue C (TupleExpr i True [e]) explosion s = emitExplodedRValue C e explosion s
   \<and> (VK i = LValueKind \<or> VK i = getValueKind e \<longrightarrow>
        emitLValue C (TupleExpr i True [e]) TInfo s = emitLValue C e TInfo s)
   \<and> (getFragileTypeInfo C (Ty i) = getFragileTypeInfo C (getType e) \<longrightarrow>
        emitRValue1 C (TupleExpr i True [e]) s = emitRValue1 C e s
        \<and> (VK i = LValueKind \<or> VK i = getValueKind e \<longrightarrow>
             emitLValue1 C (TupleExpr i True [e]) s = emitLValue1 C e s))"
proof -
  have lv: "emitLValue C (TupleExpr i True [e]) TInfo s = emitLValue C e TInfo s"
    if "VK i = LValueKind \<or> VK i = getValueKind e" for TInfo
  proof (cases "VK i = LValueKind")
    case True
    then show ?thesis by (simp add: assertLValueKind_def)
  next
    case False
    with that have "getValueKind e \<noteq> LValueKind" by auto
    with False show ?thesis
      by (simp add: assertLValueKind_def emitLValue_needs_lvalue_kind)
  qed
  show ?thesis
    using lv by (simp add: emitRValue1_def emitLValue1_def getType_def)
qed

theorem grouping_paren_transparency_witness:
  "VK \<lparr>Ty = int32, VK = LValueKind, Loc = 5\<rparr> = LValueKind
   \<and> getFragileTypeInfo exampleIRGen (Ty \<lparr>Ty = int32, VK = LValueKind, Loc = 5\<rparr>) =
       getFragileTypeInfo exampleIRGen (getType refX)
   \<and> emitLValue exampleIRGen parenX (exampleTypeInfo int32) emptyContext =
       emitLValue exampleIRGen refX (exampleTypeInfo int32) emptyContext
   \<and> emitLValue1 exampleIRGen parenX emptyContext = emitLValue1 exampleIRGen refX emptyContext
   \<and> emitLValue1 exampleIRGen refX emptyContext = Inr (AddressLValue addrX, emptyContext)
   \<and> emitRValue1 exampleIRGen parenX emptyContext = emitRValue1 exampleIRGen refX emptyContext"
  using grouping_paren_transparency
          [of exampleIRGen "\<lparr>Ty = int32, VK = LValueKind, Loc = 5\<rparr>" refX
              "exampleTypeInfo int32" emptyContext "newExplosion Minimal"]
  by (simp add: parenX_def refX_def getType_def getValueKind_def emitLValue1_def
        assertLValueKind_def emitDeclRefLValue_def localX_def exampleIRGen_def andThen_def
        emitAddressLValue_def addrX_def)

subsection \<open>The opportunistic l-value\<close>

text \<open>
  Claim C3, as amended.  When \<^verbatim>\<open>tryEmitAsLValue\<close> returns a present l-value, the
  expression is of l-value kind, or is a load, or is a grouping parenthesis that unwraps to one
  of these; the l-value returned is the one \<^verbatim>\<open>emitLValue\<close> gives for the expression
  so reached, which is of l-value kind.  On a call, a unary or binary operator, an integer or
  a float literal it never returns a present l-value: when the node is of r-value kind it
  returns absent, leaving the context as it was; when the node is of l-value kind the test
  before the switch hands it to \<^verbatim>\<open>emitLValue\<close>, which stops fatally on these kinds.
\<close>

theorem tryEmitAsLValue_soundness:
  "(tryEmitAsLValue C E type s = Inr (Some lv, s') \<longrightarrow>
      (\<exists>e. unwrapToLValue E = Some e \<and> getValueKind e = LValueKind
            \<and> emitLValue C e type s = Inr (lv, s')))
   \<and> (getKind E \<in> {Call, Unary, Binary, IntegerLiteral, FloatLiteral} \<longrightarrow>
        tryEmitAsLValue C E type s \<noteq> Inr (Some lv, s')
        \<and> (getValueKind E = RValueKind \<longrightarrow> tryEmitAsLValue C E type s = Inr (None, s))
        \<and> (getValueKind E = LValueKind \<longrightarrow>
             tryEmitAsLValue C E type s =
               Inl (llvm_unreachable ''these expression kinds should never be l-values'')))"
proof -
  have a: "tryEmitAsLValue C E type s = Inr (Some lv, s') \<Longrightarrow>
      \<exists>e. unwrapToLValue E = Some e \<and> getValueKind e = LValueKind
            \<and> emitLValue C e type s = Inr (lv, s')"
    by (induction C E type s rule: tryEmitAsLValue.induct)
       (auto simp: present_Some getValueKind_def assertLValueKind_def
             dest: emitLValue_returns_lvalue_kind split: if_splits)
  have b: "getKind E \<in> {Call, Unary, Binary, IntegerLiteral, FloatLiteral} \<Longrightarrow>
        tryEmitAsLValue C E type s \<noteq> Inr (Some lv, s')
        \<and> (getValueKind E = RValueKind \<longrightarrow> tryEmitAsLValue C E type s = Inr (None, s))
        \<and> (getValueKind E = LValueKind \<longrightarrow>
             tryEmitAsLValue C E type s =
               Inl (llvm_unreachable ''these expression kinds should never be l-values''))"
    by (cases E) (auto simp: present_def getValueKind_def assertLValueKind_def)
  from a b show ?thesis by blast
qed

theorem tryEmitAsLValue_soundness_witness:
  "tryEmitAsLValue exampleIRGen loadX (exampleTypeInfo int32) emptyContext =
     Inr (Some (AddressLValue addrX), emptyContext)
   \<and> unwrapToLValue loadX = Some refX
   \<and> emitLValue exampleIRGen refX (exampleTypeInfo int32) emptyContext =
       Inr (AddressLValue addrX, emptyContext)
   \<and> getKind (callF RValueKind) = Call \<and> getValueKind (callF RValueKind) = RValueKind
   \<and> tryEmitAsLValue exampleIRGen (callF RValueKind) (exampleTypeInfo int32) emptyContext =
       Inr (None, emptyContext)
   \<and> getKind (callF LValueKind) = Call \<and> getValueKind (callF LValueKind) = LValueKind
   \<and> tryEmitAsLValue exampleIRGen (callF LValueKind) (exampleTypeInfo int32) emptyContext =
       Inl (llvm_unreachable ''these expression kinds should never be l-values'')"
  using tryEmitAsLValue_soundness
          [of exampleIRGen loadX "exampleTypeInfo int32" emptyContext "AddressLValue addrX"
              emptyContext]
        tryEmitAsLValue_soundness
          [of exampleIRGen "callF RValueKind" "exampleTypeInfo int32" emptyContext
              "AddressLValue addrX" emptyContext]
        tryEmitAsLValue_soundness
          [of exampleIRGen "callF LValueKind" "exampleTypeInfo int32" emptyContext
              "AddressLValue addrX" emptyContext]
  by (simp add: loadX_def refX_def callF_def literal42_def getValueKind_def present_def
        assertLValueKind_def emitDeclRefLValue_def localX_def exampleIRGen_def andThen_def
        emitAddressLValue_def addrX_def)

text \<open>
  The claim as first stated fails on the call \<open>f(42)\<close> of l-value kind: it is a call
  expression, and \<^verbatim>\<open>tryEmitAsLValue\<close> does not return absent on it.  The test of the
  value kind at the head of the function passes it to \<^verbatim>\<open>emitLValue\<close>, whose switch
  reaches \<^verbatim>\<open>llvm_unreachable\<close>.
\<close>

theorem tryEmitAsLValue_soundness_counterexample:
  "getKind (callF LValueKind) = Call
   \<and> tryEmitAsLValue exampleIRGen (callF LValueKind) (exampleTypeInfo int32) emptyContext \<noteq>
       Inr (None, emptyContext)
   \<and> tryEmitAsLValue exampleIRGen (callF LValueKind) (exampleTypeInfo int32) emptyContext =
       Inl (llvm_unreachable ''these expression kinds should never be l-values'')"
  by (simp add: callF_def present_def assertLValueKind_def)

subsection \<open>Zero initialisation\<close>

text \<open>
  Claim C4.  For a type of scalar schema, \<^verbatim>\<open>emitZeroInit\<close> is one call of the type's
  \<^verbatim>\<open>store\<close> on a scalar r-value holding one null constant per scalar type of the
  schema, in order.  For a type of aggregate schema it issues a bit-cast of the address to
  \<^verbatim>\<open>i8*\<close> and then exactly one memory clear: of byte 0, over the type's storage size,
  at the alignment of the address, not volatile; nothing else changes.
\<close>

theorem emitZeroInit_stores_zero:
  "(getSchema type = ScalarSchema tys \<longrightarrow>
      emitZeroInit C addr type s = store C type (forScalars (map getNullValue tys)) addr s
      \<and> length (map getNullValue tys) = length tys
      \<and> (\<forall>k < length tys. map getNullValue tys ! k = NullValue (tys ! k)))
   \<and> (getSchema type = AggregateSchema aggTy \<longrightarrow>
        (\<exists>s'. emitZeroInit C addr type s = Inr ((), s')
           \<and> s' = s\<lparr>Builder := Builder s @
                 [CreateBitCast (getAddress addr) Int8PtrTy,
                  CreateMemSet (BitCast (getAddress addr) Int8PtrTy)
                    (ConstantInt (APInt 8 0)) (ConstantInt (APInt 64 (uint (StorageSize type))))
                    (getAlignment addr) False]\<rparr>
           \<and> memSetsIssued s s' =
                 [CreateMemSet (BitCast (getAddress addr) Int8PtrTy)
                    (ConstantInt (APInt 8 0)) (ConstantInt (APInt 64 (uint (StorageSize type))))
                    (getAlignment addr) False]))"
  by (simp add: emitZeroInit_def getNullValue_def getInt8_def getInt64_def Let_def
        memSetsIssued_def)

theorem emitZeroInit_stores_zero_witness:
  "getSchema (exampleTypeInfo int32) = ScalarSchema [IntegerTy 32]
   \<and> emitZeroInit exampleIRGen addrX (exampleTypeInfo int32) emptyContext =
       Inr ((), emptyContext\<lparr>Builder :=
                  [OtherCall ''store'' [OtherValue ''x'', NullValue (IntegerTy 32)]]\<rparr>)
   \<and> getSchema (exampleTypeInfo (OtherType ''Point'')) = AggregateSchema (OpaqueTy ''Point'')
   \<and> emitZeroInit exampleIRGen addrX (exampleTypeInfo (OtherType ''Point'')) emptyContext =
       Inr ((), emptyContext\<lparr>Builder :=
                  [CreateBitCast (OtherValue ''x'') Int8PtrTy,
                   CreateMemSet (BitCast (OtherValue ''x'') Int8PtrTy)
                     (ConstantInt (APInt 8 0)) (ConstantInt (APInt 64 24)) 4 False]\<rparr>)"
  using emitZeroInit_stores_zero
          [of "exampleTypeInfo int32" "[IntegerTy 32]" exampleIRGen addrX emptyContext]
        emitZeroInit_stores_zero
          [of "exampleTypeInfo (OtherType ''Point'')" _ exampleIRGen addrX emptyContext
              "OpaqueTy ''Point''"]
  by (simp add: exampleTypeInfo_def int32_def exampleIRGen_def exampleCall_def addrX_def
        emptyContext_def getNullValue_def)

subsection \<open>References to the cases of a sum type\<close>

text \<open>
  Claim C5.  For a reference to a \<^verbatim>\<open>OneOfElement\<close> declaration,
  \<^verbatim>\<open>emitDeclRefRValue\<close> (and \<^verbatim>\<open>emitRValue\<close> through it) returns a scalar r-value
  of exactly two values: the function that the injection-function lookup returns, then an
  undefined \<^verbatim>\<open>i8*\<close> as the context; the context afterwards is the one the lookup
  leaves.  It never returns an aggregate address.
\<close>

theorem oneof_element_rvalue:
  assumes "getDeclKind D = OneOfElementDecl"
  shows "(getAddrOfInjectionFunction C D s = Inr (fn, s') \<longrightarrow>
            emitDeclRefRValue C i D TInfo s = Inr (forScalars [fn, UndefValue Int8PtrTy], s')
            \<and> emitRValue C (DeclRefExpr i D) TInfo s =
                Inr (forScalars [fn, UndefValue Int8PtrTy], s'))
         \<and> (getAddrOfInjectionFunction C D s = Inl e \<longrightarrow>
              emitDeclRefRValue C i D TInfo s = Inl e)
         \<and> emitDeclRefRValue C i D TInfo s \<noteq> Inr (forAggregate a, s'')"
  using assms
  by (auto simp: emitDeclRefRValue_def andThen_def Let_def split: sum.splits)

theorem oneof_element_rvalue_witness:
  "getDeclKind caseSome = OneOfElementDecl
   \<and> getAddrOfInjectionFunction exampleIRGen caseSome emptyContext =
       Inr (OtherValue ''Some'', emptyContext)
   \<and> emitRValue exampleIRGen
       (DeclRefExpr \<lparr>Ty = OtherType ''Optional'', VK = RValueKind, Loc = 10\<rparr> caseSome)
       (exampleTypeInfo (OtherType ''Optional'')) emptyContext =
       Inr (forScalars [OtherValue ''Some'', UndefValue (PointerTy (IntegerTy 8))], emptyContext)"
proof -
  have k: "getDeclKind caseSome = OneOfElementDecl"
    by (simp add: caseSome_def)
  have l: "getAddrOfInjectionFunction exampleIRGen caseSome emptyContext =
             Inr (OtherValue ''Some'', emptyContext)"
    by (simp add: exampleIRGen_def caseSome_def)
  show ?thesis
    using oneof_element_rvalue
            [OF k, of exampleIRGen emptyContext "OtherValue ''Some''" emptyContext] k l
    by (simp add: Int8PtrTy_def)
qed

subsection \<open>Applications requested as l-values\<close>

text \<open>
  Claim C6, as amended.  Through \<^verbatim>\<open>emitLValue\<close>, a constructor call or a dot-syntax
  call of l-value kind takes the error-recovery path: one diagnostic is recorded and the
  placeholder l-value of the type is returned.  A plain call, a unary operator and a binary
  operator do not: for them \<^verbatim>\<open>emitLValue\<close> stops fatally.
\<close>

theorem apply_lvalue_recovery:
  "(getKind E \<in> {ConstructorCall, DotSyntaxCall} \<and> getValueKind E = LValueKind \<longrightarrow>
      emitLValue C E TInfo s =
        Inr (emitFakeLValue TInfo,
             s\<lparr>Diags := Diags s @ [(getLoc E, ''cannot generate l-values for this expression yet'')]\<rparr>))
   \<and> (getKind E \<in> {Call, Unary, Binary} \<longrightarrow> isFatal (emitLValue C E TInfo s))"
  by (cases E) (auto simp: getValueKind_def getLoc_def assertLValueKind_def unimplemented_def)

theorem apply_lvalue_recovery_witness:
  "getKind ctorCall = ConstructorCall \<and> getValueKind ctorCall = LValueKind
   \<and> emitLValue exampleIRGen ctorCall (exampleTypeInfo (OtherType ''Point'')) emptyContext =
       Inr (AddressLValue (Address (UndefValue (PointerTy (OpaqueTy ''Point''))) 8),
            emptyContext\<lparr>Diags := [(7, ''cannot generate l-values for this expression yet'')]\<rparr>)"
  using apply_lvalue_recovery
          [of ctorCall exampleIRGen "exampleTypeInfo (OtherType ''Point'')" emptyContext]
  by (simp add: ctorCall_def getValueKind_def getLoc_def emitFakeLValue_def
        emitAddressLValue_def getPointerTo_def exampleTypeInfo_def emptyContext_def)

text \<open>
  The claim as first stated fails on the call \<open>f(42)\<close> requested as an l-value.  It is an
  application form; of l-value kind, \<^verbatim>\<open>emitLValue\<close> reaches
  \<^verbatim>\<open>llvm_unreachable\<close> on it, and of r-value kind the assertion fails: either way
  there is no diagnostic and no placeholder.
\<close>

theorem apply_lvalue_recovery_counterexample:
  "getKind (callF LValueKind) = Call \<and> getValueKind (callF LValueKind) = LValueKind
   \<and> emitLValue exampleIRGen (callF LValueKind) (exampleTypeInfo int32) emptyContext =
       Inl (llvm_unreachable ''these expression kinds should never be l-values'')
   \<and> getKind (callF RValueKind) = Call
   \<and> emitLValue exampleIRGen (callF RValueKind) (exampleTypeInfo int32) emptyContext =
       Inl (assertion_failed ''E->getValueKind() == ValueKind::LValue'')"
  by (simp add: callF_def getValueKind_def assertLValueKind_def)

subsection \<open>The contract of emitLValue\<close>

text \<open>
  Claim C7.  \<^verbatim>\<open>emitLValue\<close> requires an expression of l-value kind: on any other
  expression its assertion fails, which stops the process.  On an integer or float literal, a
  load, a tuple shuffle, a function or closure literal, an anonymous closure argument, a plain
  call, a unary or a binary operator it always stops fatally, whatever the value kind; with
  the l-value kind it reaches \<^verbatim>\<open>llvm_unreachable\<close>.  The same holds for the overload
  that looks the type information up.  No result is returned in any of these cases.
\<close>

theorem emitLValue_contract:
  "(getValueKind E \<noteq> LValueKind \<longrightarrow>
      emitLValue C E TInfo s = Inl (assertion_failed ''E->getValueKind() == ValueKind::LValue''))
   \<and> (getKind E \<in> {IntegerLiteral, FloatLiteral, Load, TupleShuffle, Func, Closure,
                     AnonClosureArg, Call, Unary, Binary} \<longrightarrow>
        isFatal (emitLValue C E TInfo s)
        \<and> (getValueKind E = LValueKind \<longrightarrow>
             emitLValue C E TInfo s =
               Inl (llvm_unreachable ''these expression kinds should never be l-values'')))
   \<and> (getValueKind E \<noteq> LValueKind \<or>
        getKind E \<in> {IntegerLiteral, FloatLiteral, Load, TupleShuffle, Func, Closure,
                     AnonClosureArg, Call, Unary, Binary} \<longrightarrow>
        isFatal (emitLValue1 C E s))"
proof -
  have k: "getKind E \<in> {IntegerLiteral, FloatLiteral, Load, TupleShuffle, Func, Closure,
                     AnonClosureArg, Call, Unary, Binary} \<Longrightarrow>
        isFatal (emitLValue C E TInfo s)
        \<and> (getValueKind E = LValueKind \<longrightarrow>
             emitLValue C E TInfo s =
               Inl (llvm_unreachable ''these expression kinds should never be l-values''))"
    for TInfo
    by (cases E) (auto simp: getValueKind_def assertLValueKind_def)
  have v: "getValueKind E \<noteq> LValueKind \<Longrightarrow> isFatal (emitLValue C E TInfo s)" for TInfo
    by (simp add: emitLValue_needs_lvalue_kind)
  show ?thesis
    using k v by (auto simp: emitLValue_needs_lvalue_kind emitLValue1_def)
qed

theorem emitLValue_contract_witness:
  "getValueKind literal42 = RValueKind
   \<and> emitLValue exampleIRGen literal42 (exampleTypeInfo int32) emptyContext =
       Inl (assertion_failed ''E->getValueKind() == ValueKind::LValue'')
   \<and> getKind (callF LValueKind) = Call \<and> getValueKind (callF LValueKind) = LValueKind
   \<and> emitLValue exampleIRGen (callF LValueKind) (exampleTypeInfo int32) emptyContext =
       Inl (llvm_unreachable ''these expression kinds should never be l-values'')
   \<and> isFatal (emitLValue1 exampleIRGen (callF LValueKind) emptyContext)"
  using emitLValue_contract [of literal42 exampleIRGen "exampleTypeInfo int32" emptyContext]
        emitLValue_contract [of "callF LValueKind" exampleIRGen "exampleTypeInfo int32" emptyContext]
  by (simp add: literal42_def callF_def getValueKind_def)

subsection \<open>Loads\<close>



subsection \<open>Error recovery on the unimplemented branches\<close>

text \<open>
  Claim C9.  Every branch of the dispatch marked unimplemented records exactly one
  diagnostic, at the location of the expression, and returns a placeholder without stopping:
  \<^item> a function literal, a closure literal or an anonymous closure argument, as an r-value,
    gives the placeholder r-value of the type and, exploded, the placeholder explosion of the
    expression's type;
  \<^item> a constructor call or a dot-syntax call of l-value kind, as an l-value, gives the
    placeholder l-value;
  \<^item> a reference to an \<^verbatim>\<open>ElementRef\<close> declaration gives the placeholder r-value, which
    the exploded lowering hands to the \<^verbatim>\<open>explode\<close> method of the type; a reference of
    l-value kind to an \<^verbatim>\<open>ElementRef\<close> or \<^verbatim>\<open>OneOfElement\<close> declaration gives, as
    an l-value, the placeholder l-value.
  The placeholders have the shape of the schema: the placeholder r-value is one undefined
  scalar per scalar type of a scalar schema, or an undefined pointer to the aggregate type of
  an aggregate schema; the placeholder l-value is an undefined pointer to the storage type, at
  the storage alignment; the placeholder explosion appends one undefined value per element of
  the explosion schema, a pointer for an aggregate element.
\<close>

theorem unimplemented_placeholder:
  "(getKind E \<in> {Func, Closure, AnonClosureArg} \<longrightarrow>
      emitRValue C E TInfo s =
        Inr (emitFakeRValue TInfo,
             s\<lparr>Diags := Diags s @
                  [(getLoc E, ''cannot generate r-values for this expression yet'')]\<rparr>)
      \<and> emitExplodedRValue C E explosion s =
          Inr (emitFakeExplosion C (getFragileTypeInfo C (getType E)) explosion,
               s\<lparr>Diags := Diags s @
                    [(getLoc E, ''cannot explode r-values for this expression yet'')]\<rparr>))
   \<and> (getKind E \<in> {ConstructorCall, DotSyntaxCall} \<and> getValueKind E = LValueKind \<longrightarrow>
        emitLValue C E TInfo s =
          Inr (emitFakeLValue TInfo,
               s\<lparr>Diags := Diags s @
                    [(getLoc E, ''cannot generate l-values for this expression yet'')]\<rparr>))
   \<and> (getDeclKind D = ElementRefDecl \<longrightarrow>
        emitRValue C (DeclRefExpr i D) TInfo s =
          Inr (emitFakeRValue TInfo,
               s\<lparr>Diags := Diags s @ [(Loc i, ''emitting this decl as an r-value'')]\<rparr>)
        \<and> emitExplodedRValue C (DeclRefExpr i D) explosion s =
            explode C (getFragileTypeInfo C (Ty i))
              (emitFakeRValue (getFragileTypeInfo C (Ty i))) explosion
              (s\<lparr>Diags := Diags s @ [(Loc i, ''emitting this decl as an r-value'')]\<rparr>))
   \<and> (getDeclKind D \<in> {ElementRefDecl, OneOfElementDecl} \<and> VK i = LValueKind \<longrightarrow>
        emitLValue C (DeclRefExpr i D) TInfo s =
          Inr (emitFakeLValue TInfo,
               s\<lparr>Diags := Diags s @ [(Loc i, ''emitting this decl as an l-value'')]\<rparr>))
   \<and> undefinedOfSchema (getSchema TInfo) (emitFakeRValue TInfo)
   \<and> emitFakeLValue TInfo =
       AddressLValue (Address (UndefValue (PointerTy (StorageType TInfo))) (StorageAlignment TInfo))
   \<and> Values (emitFakeExplosion C TInfo explosion) =
       Values explosion @
         map (\<lambda>element. UndefValue (elementType element))
           (getExplosionSchema C TInfo (ExKind explosion))
   \<and> ExKind (emitFakeExplosion C TInfo explosion) = ExKind explosion"
proof -
  have kind: "ExKind (emitFakeExplosion C TInfo explosion) = ExKind explosion"
    by (simp add: emitFakeExplosion_def foldl_add_ExKind)
  show ?thesis
    using fake_rvalue_of_literal_kinds [of E C TInfo s]
      fake_explosion_of_literal_kinds [of E C explosion s]
      fake_lvalue_of_calls [of E C TInfo s] fake_rvalue_of_element_ref [of D C i TInfo s]
      exploded_element_ref [of D C i explosion s] fake_lvalue_of_decl [of D i C TInfo s]
      emitFakeRValue_shape [of TInfo] emitFakeLValue_shape [of TInfo]
      emitFakeExplosion_shape [of C TInfo explosion] kind
    by blast
qed

theorem unimplemented_placeholder_witness:
  "getKind closure = Closure
   \<and> emitRValue exampleIRGen closure (exampleTypeInfo int32) emptyContext =
       Inr (forScalars [UndefValue (IntegerTy 32)],
            emptyContext\<lparr>Diags := [(8, ''cannot generate r-values for this expression yet'')]\<rparr>)
   \<and> emitExplodedRValue exampleIRGen closure (newExplosion Minimal) emptyContext =
       Inr (\<lparr>ExKind = Minimal, Values = [UndefValue (PointerTy (OpaqueTy ''() -> int32''))]\<rparr>,
            emptyContext\<lparr>Diags := [(8, ''cannot explode r-values for this expression yet'')]\<rparr>)
   \<and> getKind ctorCall = ConstructorCall \<and> getValueKind ctorCall = LValueKind
   \<and> emitLValue exampleIRGen ctorCall (exampleTypeInfo int32) emptyContext =
       Inr (AddressLValue (Address (UndefValue (PointerTy (IntegerTy 32))) 4),
            emptyContext\<lparr>Diags := [(7, ''cannot generate l-values for this expression yet'')]\<rparr>)
   \<and> getDeclKind elementY = ElementRefDecl
   \<and> emitRValue exampleIRGen
       (DeclRefExpr \<lparr>Ty = int32, VK = LValueKind, Loc = 11\<rparr> elementY)
       (exampleTypeInfo int32) emptyContext =
       Inr (forScalars [UndefValue (IntegerTy 32)],
            emptyContext\<lparr>Diags := [(11, ''emitting this decl as an r-value'')]\<rparr>)
   \<and> emitLValue exampleIRGen
       (DeclRefExpr \<lparr>Ty = int32, VK = LValueKind, Loc = 11\<rparr> elementY)
       (exampleTypeInfo int32) emptyContext =
       Inr (AddressLValue (Address (UndefValue (PointerTy (IntegerTy 32))) 4),
            emptyContext\<lparr>Diags := [(11, ''emitting this decl as an l-value'')]\<rparr>)"
  using unimplemented_placeholder
          [of closure exampleIRGen "exampleTypeInfo int32" emptyContext "newExplosion Minimal"
              elementY "\<lparr>Ty = int32, VK = LValueKind, Loc = 11\<rparr>"]
        unimplemented_placeholder
          [of ctorCall exampleIRGen "exampleTypeInfo int32" emptyContext "newExplosion Minimal"
              elementY "\<lparr>Ty = int32, VK = LValueKind, Loc = 11\<rparr>"]
  by (simp add: closure_def ctorCall_def elementY_def getValueKind_def getLoc_def getType_def
        emitFakeRValue_def emitFakeLValue_def emitFakeExplosion_def emitAddressLValue_def
        getPointerTo_def exampleTypeInfo_def exampleExplosionSchema_def exampleIRGen_def
        int32_def emptyContext_def newExplosion_def add_def)

subsection \<open>Primitive scalars\<close>

text \<open>
  Claim C10.  \<^verbatim>\<open>emitAsPrimitiveScalar\<close> explodes the expression into a fresh minimal
  explosion, claims one value and asserts that none is left.  So it returns exactly when the
  expression explodes to one scalar, and then returns that scalar; on an expression that
  explodes to no scalar the claim underflows, on one that explodes to two or more the
  emptiness assertion fails, and both stop the process.  A fatal stop of the exploded lowering
  is passed on.
\<close>

theorem emitAsPrimitiveScalar_single_scalar:
  "(emitExplodedRValue C E (newExplosion Minimal) s = Inr (explosion, s') \<longrightarrow>
      (Values explosion = [] \<longrightarrow>
         emitAsPrimitiveScalar C E s = Inl (assertion_failed ''claimNext: explosion underflow''))
      \<and> (Values explosion = [v] \<longrightarrow> emitAsPrimitiveScalar C E s = Inr (v, s'))
      \<and> (2 \<le> length (Values explosion) \<longrightarrow>
           emitAsPrimitiveScalar C E s = Inl (assertion_failed ''explosion.empty()'')))
   \<and> (emitExplodedRValue C E (newExplosion Minimal) s = Inl f \<longrightarrow>
        emitAsPrimitiveScalar C E s = Inl f)
   \<and> (emitAsPrimitiveScalar C E s = Inr (v, s') \<longrightarrow>
        (\<exists>explosion. emitExplodedRValue C E (newExplosion Minimal) s = Inr (explosion, s')
           \<and> Values explosion = [v]))"
  by (auto simp: emitAsPrimitiveScalar_def andThen_def claimNext_def empty_def
        split: sum.splits list.splits prod.splits if_splits dest: at_least_two)

theorem emitAsPrimitiveScalar_single_scalar_witness:
  "emitExplodedRValue exampleIRGen literal42 (newExplosion Minimal) emptyContext =
     Inr (\<lparr>ExKind = Minimal, Values = [ConstantInt (APInt 32 42)]\<rparr>, emptyContext)
   \<and> emitAsPrimitiveScalar exampleIRGen literal42 emptyContext =
       Inr (ConstantInt (APInt 32 42), emptyContext)
   \<and> emitExplodedRValue exampleIRGen emptyTuple (newExplosion Minimal) emptyContext =
       Inr (\<lparr>ExKind = Minimal, Values = []\<rparr>, emptyContext)
   \<and> emitAsPrimitiveScalar exampleIRGen emptyTuple emptyContext =
       Inl (assertion_failed ''claimNext: explosion underflow'')
   \<and> emitExplodedRValue exampleIRGen refF (newExplosion Minimal) emptyContext =
       Inr (\<lparr>ExKind = Minimal, Values = [OtherValue ''f'', UndefValue Int8PtrTy]\<rparr>, emptyContext)
   \<and> emitAsPrimitiveScalar exampleIRGen refF emptyContext =
       Inl (assertion_failed ''explosion.empty()'')"
proof -
  have one: "emitExplodedRValue exampleIRGen literal42 (newExplosion Minimal) emptyContext =
     Inr (\<lparr>ExKind = Minimal, Values = [ConstantInt (APInt 32 42)]\<rparr>, emptyContext)"
    by (simp add: literal42_def emitIntegerLiteralExpr_def int32_def add_def newExplosion_def)
  have none: "emitExplodedRValue exampleIRGen emptyTuple (newExplosion Minimal) emptyContext =
       Inr (\<lparr>ExKind = Minimal, Values = []\<rparr>, emptyContext)"
    by (simp add: emptyTuple_def exampleIRGen_def newExplosion_def)
  have two: "emitExplodedRValue exampleIRGen refF (newExplosion Minimal) emptyContext =
       Inr (\<lparr>ExKind = Minimal, Values = [OtherValue ''f'', UndefValue Int8PtrTy]\<rparr>, emptyContext)"
    by (simp add: refF_def funcF_def emitExplodedDeclRef_def emitDeclRefRValue_def
          exampleIRGen_def exampleExplode_def andThen_def newExplosion_def)
  show ?thesis
    using one none two
      emitAsPrimitiveScalar_single_scalar
        [of exampleIRGen literal42 emptyContext _ emptyContext "ConstantInt (APInt 32 42)"]
      emitAsPrimitiveScalar_single_scalar [of exampleIRGen emptyTuple emptyContext _ emptyContext]
      emitAsPrimitiveScalar_single_scalar [of exampleIRGen refF emptyContext _ emptyContext]
    by simp
qed

end
